theory Spec2Isabelle
  imports Complex_Main "HOL-Library.Sublist"
begin

section \<open>Values of the Python program\<close>

text \<open>
  The script \<^verbatim>\<open>backend/schemas/saidify_keri.py\<close> reads JSON schema files, asks keripy for
  the SAID of each schema and writes the SAID back into the \<^verbatim>\<open>$id\<close> field of the file.

  A JSON value as \<^verbatim>\<open>json.load\<close> returns it. A Python \<^verbatim>\<open>dict\<close> keeps its keys in insertion
  order and that order decides what \<^verbatim>\<open>json.dump\<close> writes, so a dict is a list of key/value
  pairs; a dict built by Python has pairwise distinct keys. A Python \<^verbatim>\<open>float\<close> is carried as
  a real number: the script never inspects a number. Strings are lists of 8-bit characters;
  the model is about ASCII text.
\<close>

type_synonym path = string

datatype json =
    JNull
  | JBool bool
  | JInt int
  | JFloat real
  | JStr string
  | JArr "json list"
  | JObj "(string \<times> json) list"

type_synonym dict = "(string \<times> json) list"

text \<open>
  A raised exception: its class name and its message \<^verbatim>\<open>str(e)\<close>. The loop of \<^verbatim>\<open>main\<close>
  catches \<^verbatim>\<open>Exception\<close> only, so the model separates the classes that derive from
  \<^verbatim>\<open>Exception\<close> from those that derive from \<^verbatim>\<open>BaseException\<close> alone
  (\<^verbatim>\<open>KeyboardInterrupt\<close>, \<^verbatim>\<open>SystemExit\<close>, \<^verbatim>\<open>GeneratorExit\<close>).
\<close>

datatype exn =
    Exception string string
  | BaseException string string

fun is_Exception :: "exn \<Rightarrow> bool" where
  "is_Exception (Exception c m) = True"
| "is_Exception (BaseException c m) = False"

subsection \<open>The dict operations the script uses\<close>

text \<open>\<^verbatim>\<open>dict(d)\<close>: a new dict object with the same items (a shallow copy).\<close>

definition dict_copy :: "('k \<times> 'v) list \<Rightarrow> ('k \<times> 'v) list" where
  "dict_copy d = d"

text \<open>\<^verbatim>\<open>d.pop(k, None)\<close>: the key is removed if it is there; with a default, no \<^verbatim>\<open>KeyError\<close>.\<close>

definition dict_pop :: "'k \<Rightarrow> ('k \<times> 'v) list \<Rightarrow> ('k \<times> 'v) list" where
  "dict_pop k d = filter (\<lambda>kv. fst kv \<noteq> k) d"

text \<open>\<^verbatim>\<open>d.get(k, default)\<close>.\<close>

definition dict_get :: "('k \<times> 'v) list \<Rightarrow> 'k \<Rightarrow> 'v \<Rightarrow> 'v" where
  "dict_get d k dflt = (case map_of d k of Some v \<Rightarrow> v | None \<Rightarrow> dflt)"

text \<open>\<^verbatim>\<open>d[k] = v\<close>: an existing key keeps its position, a new key goes to the end.\<close>

fun dict_setitem :: "('k \<times> 'v) list \<Rightarrow> 'k \<Rightarrow> 'v \<Rightarrow> ('k \<times> 'v) list" where
  "dict_setitem [] k v = [(k, v)]"
| "dict_setitem (kv # d) k v = (if fst kv = k then (k, v) # d else kv # dict_setitem d k v)"

text \<open>\<^verbatim>\<open>a == b\<close> for a JSON value \<^verbatim>\<open>a\<close> and a \<^verbatim>\<open>str\<close> \<^verbatim>\<open>b\<close>: only an equal string is equal.\<close>

definition py_eq_str :: "json \<Rightarrow> string \<Rightarrow> bool" where
  "py_eq_str a b = (case a of JStr s \<Rightarrow> s = b | _ \<Rightarrow> False)"

fun py_type_name :: "json \<Rightarrow> string" where
  "py_type_name JNull = ''NoneType''"
| "py_type_name (JBool b) = ''bool''"
| "py_type_name (JInt n) = ''int''"
| "py_type_name (JFloat x) = ''float''"
| "py_type_name (JStr s) = ''str''"
| "py_type_name (JArr xs) = ''list''"
| "py_type_name (JObj d) = ''dict''"

section \<open>What the script imports\<close>

text \<open>
  The script calls code that is not part of the repository: keripy's
  \<^verbatim>\<open>scheming.Schemer\<close>, the standard library's \<^verbatim>\<open>json\<close> and \<^verbatim>\<open>pathlib\<close>, and the formatting of
  values by \<^verbatim>\<open>print\<close>. They are parameters of the model, collected in one record; every
  theorem holds for all of them.
  \<^item> \<open>keri_installed\<close>: whether \<^verbatim>\<open>from keri.core import scheming\<close> succeeds;
  \<^item> \<open>schemer_said d\<close>: the value of \<^verbatim>\<open>scheming.Schemer(sed=d).said\<close>, or the exception
    that the constructor raises;
  \<^item> \<open>schemer_sed d\<close>: the items the constructor leaves in the dict object it was given;
  \<^item> \<open>json_load s\<close>: \<^verbatim>\<open>json.load\<close> on a file of content \<open>s\<close>;
  \<^item> \<open>json_dump v\<close>: the text \<^verbatim>\<open>json.dump(v, f, indent=4)\<close> writes;
  \<^item> \<open>py_repr v\<close>: how an f-string shows a value that is not a \<^verbatim>\<open>str\<close>;
  \<^item> \<open>stem p\<close>: \<^verbatim>\<open>Path.stem\<close>;
  \<^item> \<open>glob_matou fs\<close>: \<^verbatim>\<open>sorted(script_dir.glob('matou-*.json'))\<close> on the file system \<open>fs\<close>.
\<close>

record lib =
  keri_installed :: bool
  schemer_said :: "dict \<Rightarrow> exn + string"
  schemer_sed :: "dict \<Rightarrow> dict"
  json_load :: "string \<Rightarrow> exn + json"
  json_dump :: "json \<Rightarrow> string"
  py_repr :: "json \<Rightarrow> string"
  stem :: "path \<Rightarrow> string"
  glob_matou :: "(path \<Rightarrow> string option) \<Rightarrow> path list"

section \<open>compute_said\<close>

text \<open>
  \<^verbatim>\<open>
  def compute_said(schema_dict: dict) -> str:
      schema_copy = dict(schema_dict)
      schema_copy.pop('$id', None)
      schemer = scheming.Schemer(sed=schema_copy)
      return schemer.said
  \<close>
  On values: the copy, the removal of \<^verbatim>\<open>$id\<close> from the copy, the library call.
\<close>

definition compute_said :: "lib \<Rightarrow> dict \<Rightarrow> exn + string" where
  "compute_said L schema_dict =
     (let schema_copy = dict_copy schema_dict;
          schema_copy = dict_pop ''$id'' schema_copy
      in schemer_said L schema_copy)"

text \<open>
  On objects: a store holds the dict objects, a reference is an index into it. \<^verbatim>\<open>dict(...)\<close>
  allocates a new object, \<^verbatim>\<open>pop\<close> changes the object it is called on, and the library may
  change the object it is handed. The values inside a dict are shared between the copy and
  the original; nothing in the script changes them.
\<close>

type_synonym ref = nat
type_synonym store = "dict list"

definition compute_said_store :: "lib \<Rightarrow> store \<Rightarrow> ref \<Rightarrow> (exn + string) \<times> store" where
  "compute_said_store L h schema_dict =
     (let schema_copy = length h;
          h1 = h @ [dict_copy (h ! schema_dict)];
          h2 = h1[schema_copy := dict_pop ''$id'' (h1 ! schema_copy)];
          h3 = h2[schema_copy := schemer_sed L (h2 ! schema_copy)]
      in (schemer_said L (h2 ! schema_copy), h3))"

section \<open>Files and output\<close>

text \<open>
  What the script does to the outside is kept in a trace: each \<^verbatim>\<open>print\<close>, each \<^verbatim>\<open>open\<close>
  (attempted reads too) and each piece of text that reaches a file. The file system maps a
  path to the content of the file there. Writing can fail in two places. A path can be
  closed to writing (\<open>read_only\<close>): then \<^verbatim>\<open>open(p, 'w')\<close> raises \<^verbatim>\<open>PermissionError\<close> and the
  file is as it was. And storage can fail while text is written: \<open>capacity\<close> gives, for a
  path, the number of characters the file can hold (\<open>None\<close>: no limit), and a write that
  does not fit stores what fits and raises \<^verbatim>\<open>OSError\<close>.
\<close>

datatype event =
    Print string
  | Print_help
  | Open_read path
  | Open_write path
  | Write path string

record world =
  files :: "path \<Rightarrow> string option"
  read_only :: "path \<Rightarrow> bool"
  capacity :: "path \<Rightarrow> nat option"
  trace :: "event list"

definition emit :: "event \<Rightarrow> world \<Rightarrow> world" where
  "emit e w = w\<lparr>trace := trace w @ [e]\<rparr>"

text \<open>\<^verbatim>\<open>open(p, 'r')\<close> and reading the whole file: a missing file raises \<^verbatim>\<open>FileNotFoundError\<close>.\<close>

definition open_read :: "path \<Rightarrow> world \<Rightarrow> (exn + string) \<times> world" where
  "open_read p w =
     (case files w p of
        None \<Rightarrow> (Inl (Exception ''FileNotFoundError''
                        (''[Errno 2] No such file or directory: '' @ [CHR 0x27] @ p @ [CHR 0x27])),
                 emit (Open_read p) w)
      | Some s \<Rightarrow> (Inr s, emit (Open_read p) w))"

text \<open>
  \<^verbatim>\<open>open(p, 'w')\<close>: if the path is closed to writing the call raises and nothing changes;
  otherwise the file is created or cut to length zero at once.
\<close>

definition open_write :: "path \<Rightarrow> world \<Rightarrow> exn option \<times> world" where
  "open_write p w =
     (if read_only w p
      then (Some (Exception ''PermissionError''
                   (''[Errno 13] Permission denied: '' @ [CHR 0x27] @ p @ [CHR 0x27])),
            emit (Open_write p) w)
      else (None, emit (Open_write p) (w\<lparr>files := (files w)(p \<mapsto> [])\<rparr>)))"

text \<open>Text written to the open file is appended to it, as far as the storage takes it.\<close>

definition write_text :: "path \<Rightarrow> string \<Rightarrow> world \<Rightarrow> exn option \<times> world" where
  "write_text p s w =
     (let cur = (case files w p of Some c \<Rightarrow> c | None \<Rightarrow> []);
          room = (case capacity w p of None \<Rightarrow> length s | Some k \<Rightarrow> k - length cur);
          w' = emit (Write p (take room s)) (w\<lparr>files := (files w)(p \<mapsto> cur @ take room s)\<rparr>)
      in if length s \<le> room then (None, w')
         else (Some (Exception ''OSError'' ''[Errno 28] No space left on device''), w'))"

text \<open>How an f-string shows a JSON value: a \<^verbatim>\<open>str\<close> as it is, anything else by its \<^verbatim>\<open>repr\<close>.\<close>

definition py_str :: "lib \<Rightarrow> json \<Rightarrow> string" where
  "py_str L v = (case v of JStr s \<Rightarrow> s | _ \<Rightarrow> py_repr L v)"

section \<open>saidify_file\<close>

text \<open>
  \<^verbatim>\<open>
  def saidify_file(filepath: Path) -> str:
      print(f"Processing: {filepath}")
      with open(filepath, 'r') as f:
          schema = json.load(f)
      old_id = schema.get('$id', '(none)')
      new_id = compute_said(schema)
      print(f"  Old $id: {old_id}")
      print(f"  New $id: {new_id}")
      if old_id == new_id:
          print("  (no change)")
      else:
          schema['$id'] = new_id
          with open(filepath, 'w') as f:
              json.dump(schema, f, indent=4)
              f.write('\n')
          print("  Updated!")
      return new_id
  \<close>
  The result is the returned SAID or the exception raised, with the world as the call
  leaves it. \<^verbatim>\<open>json.load\<close> may return a value that is no dict; then \<^verbatim>\<open>schema.get\<close> raises
  \<^verbatim>\<open>AttributeError\<close>. The \<^verbatim>\<open>else\<close> branch is \<open>rewrite_file\<close>.
\<close>

definition rewrite_file :: "lib \<Rightarrow> path \<Rightarrow> dict \<Rightarrow> string \<Rightarrow> world \<Rightarrow> (exn + string) \<times> world" where
  "rewrite_file L filepath schema new_id w =
     (let schema' = dict_setitem schema ''$id'' (JStr new_id)
      in case open_write filepath w of
           (Some e, w1) \<Rightarrow> (Inl e, w1)
         | (None, w1) \<Rightarrow>
             (case write_text filepath (json_dump L (JObj schema')) w1 of
                (Some e, w2) \<Rightarrow> (Inl e, w2)
              | (None, w2) \<Rightarrow>
                  (case write_text filepath [CHR 0x0A] w2 of
                     (Some e, w3) \<Rightarrow> (Inl e, w3)
                   | (None, w3) \<Rightarrow> (Inr new_id, emit (Print ''  Updated!'') w3))))"

definition saidify_file :: "lib \<Rightarrow> path \<Rightarrow> world \<Rightarrow> (exn + string) \<times> world" where
  "saidify_file L filepath w =
     (let w1 = emit (Print (''Processing: '' @ filepath)) w
      in case open_read filepath w1 of
           (Inl e, w2) \<Rightarrow> (Inl e, w2)
         | (Inr text, w2) \<Rightarrow>
             (case json_load L text of
                Inl e \<Rightarrow> (Inl e, w2)
              | Inr (JObj schema) \<Rightarrow>
                  (let old_id = dict_get schema ''$id'' (JStr ''(none)'')
                   in case compute_said L schema of
                        Inl e \<Rightarrow> (Inl e, w2)
                      | Inr new_id \<Rightarrow>
                          (let w3 = emit (Print (''  Old $id: '' @ py_str L old_id)) w2;
                               w4 = emit (Print (''  New $id: '' @ new_id)) w3
                           in if py_eq_str old_id new_id
                              then (Inr new_id, emit (Print ''  (no change)'') w4)
                              else rewrite_file L filepath schema new_id w4))
              | Inr v \<Rightarrow>
                  (Inl (Exception ''AttributeError''
                         ([CHR 0x27] @ py_type_name v @ [CHR 0x27]
                          @ '' object has no attribute '' @ [CHR 0x27] @ ''get'' @ [CHR 0x27])),
                   w2)))"

section \<open>The names of the constants\<close>

text \<open>
  \<^verbatim>\<open>s.startswith(p)\<close>, \<^verbatim>\<open>sub in s\<close>, \<^verbatim>\<open>s.replace(old, new)\<close> (every occurrence, found from the
  left, occurrences not overlapping) and \<^verbatim>\<open>s.upper()\<close> on ASCII letters.
\<close>

fun startswith :: "string \<Rightarrow> string \<Rightarrow> bool" where
  "startswith s [] = True"
| "startswith [] (p # ps) = False"
| "startswith (c # cs) (p # ps) = (c = p \<and> startswith cs ps)"

fun py_in :: "string \<Rightarrow> string \<Rightarrow> bool" where
  "py_in sub [] = (sub = [])"
| "py_in sub (c # cs) = (startswith (c # cs) sub \<or> py_in sub cs)"

function replace_from :: "string \<Rightarrow> string \<Rightarrow> string \<Rightarrow> string" where
  "replace_from old new [] = []"
| "replace_from old new (c # cs) =
     (if old \<noteq> [] \<and> startswith (c # cs) old
      then new @ replace_from old new (drop (length old - 1) cs)
      else c # replace_from old new cs)"
  by pat_completeness auto
termination
  by (relation "measure (\<lambda>(old, new, s). length s)") auto

definition py_replace :: "string \<Rightarrow> string \<Rightarrow> string \<Rightarrow> string" where
  "py_replace s old new =
     (if old = [] then new @ concat (map (\<lambda>c. c # new) s) else replace_from old new s)"

definition upper_char :: "char \<Rightarrow> char" where
  "upper_char c =
     (case map_of (zip ''abcdefghijklmnopqrstuvwxyz'' ''ABCDEFGHIJKLMNOPQRSTUVWXYZ'') c of
        Some u \<Rightarrow> u
      | None \<Rightarrow> c)"

definition upper :: "string \<Rightarrow> string" where
  "upper s = map upper_char s"

text \<open>
  The body of the last loop of \<^verbatim>\<open>main\<close>:
  \<^verbatim>\<open>
  const_name = name.replace('matou-', '').replace('-', '_').upper()
  if '_SCHEMA' not in const_name:
      const_name += '_SAID'
  else:
      const_name = const_name.replace('_SCHEMA', '_SCHEMA_SAID')
  print(f"const {const_name} = '{said}';")
  \<close>
\<close>

definition const_name :: "string \<Rightarrow> string" where
  "const_name name =
     (let const_name = upper (py_replace (py_replace name ''matou-'' []) ''-'' ''_'')
      in if \<not> py_in ''_SCHEMA'' const_name
         then const_name @ ''_SAID''
         else py_replace const_name ''_SCHEMA'' ''_SCHEMA_SAID'')"

definition const_line :: "string \<Rightarrow> string \<Rightarrow> string" where
  "const_line name said =
     ''const '' @ const_name name @ '' = '' @ [CHR 0x27] @ said @ [CHR 0x27] @ '';''"

section \<open>main\<close>

text \<open>
  The parsed command line: \<^verbatim>\<open>args.all\<close> and \<^verbatim>\<open>args.files\<close>, the latter already as paths.
  \<^verbatim>\<open>
  results = {}
  for f in files:
      try:
          said = saidify_file(f)
          results[f.stem] = said
      except Exception as e:
          print(f"  Error: {e}")
  \<close>
  An exception that is no \<^verbatim>\<open>Exception\<close> leaves the loop and \<^verbatim>\<open>main\<close>.
\<close>

record args =
  arg_all :: bool
  arg_files :: "path list"

fun process_files ::
  "lib \<Rightarrow> path list \<Rightarrow> (string \<times> string) list \<Rightarrow> world
     \<Rightarrow> exn option \<times> (string \<times> string) list \<times> world" where
  "process_files L [] results w = (None, results, w)"
| "process_files L (f # fs) results w =
     (case saidify_file L f w of
        (Inr said, w') \<Rightarrow> process_files L fs (dict_setitem results (stem L f) said) w'
      | (Inl (Exception c m), w') \<Rightarrow> process_files L fs results (emit (Print (''  Error: '' @ m)) w')
      | (Inl (BaseException c m), w') \<Rightarrow> (Some (BaseException c m), results, w'))"

definition print_consts :: "(string \<times> string) list \<Rightarrow> world \<Rightarrow> world" where
  "print_consts results w =
     (if results = [] then w
      else fold (\<lambda>(name, said). emit (Print (const_line name said))) results
             (emit (Print ([CHR 0x0A] @ ''=== SAIDs for code ==='' @ [CHR 0x0A])) w))"

definition main :: "lib \<Rightarrow> args \<Rightarrow> world \<Rightarrow> exn option \<times> world" where
  "main L a w =
     (if arg_all a \<or> arg_files a \<noteq> [] then
        (let fs = (if arg_all a then glob_matou L (files w) else arg_files a)
         in case process_files L fs [] w of
              (Some e, results, w') \<Rightarrow> (Some e, w')
            | (None, results, w') \<Rightarrow> (None, print_consts results w'))
      else (None, emit Print_help w))"

text \<open>
  The script as a process: the guarded import at the top of the module, then \<^verbatim>\<open>main()\<close>.
  \<^verbatim>\<open>
  try:
      from keri.core import scheming
  except ImportError:
      print("Error: keripy not installed. Run: pip install keri")
      print("Or run this script inside a KERIA Docker container:")
      print("  docker exec -it keria python3 /path/to/saidify_keri.py")
      sys.exit(1)
  \<close>
  The process ends with an exit status, or with the exception that nothing caught.
\<close>

datatype ending = Exit nat | Uncaught exn

definition script :: "lib \<Rightarrow> args \<Rightarrow> world \<Rightarrow> ending \<times> world" where
  "script L a w =
     (if \<not> keri_installed L then
        (Exit 1,
         emit (Print ''  docker exec -it keria python3 /path/to/saidify_keri.py'')
           (emit (Print ''Or run this script inside a KERIA Docker container:'')
             (emit (Print ''Error: keripy not installed. Run: pip install keri'') w)))
      else
        (case main L a w of
           (None, w') \<Rightarrow> (Exit 0, w')
         | (Some e, w') \<Rightarrow> (Uncaught e, w')))"

section \<open>What the trace shows\<close>

text \<open>The paths the script tried to open for reading, and the events that touch a file.\<close>

fun reads :: "event list \<Rightarrow> path list" where
  "reads [] = []"
| "reads (Open_read p # es) = p # reads es"
| "reads (e # es) = reads es"

fun is_write :: "event \<Rightarrow> bool" where
  "is_write (Open_write p) = True"
| "is_write (Write p s) = True"
| "is_write e = False"

definition writes :: "event list \<Rightarrow> event list" where
  "writes es = filter is_write es"

text \<open>What a file holds of a text when the storage takes at most \<open>cap\<close> characters.\<close>

definition stored :: "nat option \<Rightarrow> string \<Rightarrow> string" where
  "stored cap text = (case cap of None \<Rightarrow> text | Some k \<Rightarrow> take k text)"

text \<open>The text a rewrite sends to the file: the schema with its new \<^verbatim>\<open>$id\<close>, then a newline.\<close>

definition new_text :: "lib \<Rightarrow> dict \<Rightarrow> string \<Rightarrow> string" where
  "new_text L schema new_id =
     json_dump L (JObj (dict_setitem schema ''$id'' (JStr new_id))) @ [CHR 0x0A]"

section \<open>The naming rule as the specification words it\<close>

text \<open>
  The specification describes the name of a constant as: strip the prefix \<^verbatim>\<open>matou-\<close>, replace
  \<^verbatim>\<open>-\<close> by \<^verbatim>\<open>_\<close>, uppercase, then append \<^verbatim>\<open>_SAID\<close>, unless the name contains the marker
  \<^verbatim>\<open>_SCHEMA\<close>: then \<^verbatim>\<open>_SAID\<close> is inserted right after that marker. \<open>spec_const_name\<close>
  follows these words, to be compared with \<open>const_name\<close>, which follows the code.
  \<open>py_count\<close> is \<^verbatim>\<open>s.count(sub)\<close> for a non-empty \<open>sub\<close>.
\<close>

definition removeprefix :: "string \<Rightarrow> string \<Rightarrow> string" where
  "removeprefix s p = (if startswith s p then drop (length p) s else s)"

fun insert_after :: "string \<Rightarrow> string \<Rightarrow> string \<Rightarrow> string" where
  "insert_after m ins [] = []"
| "insert_after m ins (c # cs) =
     (if startswith (c # cs) m then m @ ins @ drop (length m) (c # cs)
      else c # insert_after m ins cs)"

function py_count :: "string \<Rightarrow> string \<Rightarrow> nat" where
  "py_count [] sub = 0"
| "py_count (c # cs) sub =
     (if sub \<noteq> [] \<and> startswith (c # cs) sub
      then 1 + py_count (drop (length sub - 1) cs) sub
      else py_count cs sub)"
  by pat_completeness auto
termination
  by (relation "measure (\<lambda>(s, sub). length s)") auto

definition spec_const_name :: "string \<Rightarrow> string" where
  "spec_const_name name =
     (let base = removeprefix name ''matou-'';
          c = upper (map (\<lambda>ch. if ch = CHR ''-'' then CHR ''_'' else ch) base)
      in if py_in ''_SCHEMA'' c then insert_after ''_SCHEMA'' ''_SAID'' c else c @ ''_SAID'')"

section \<open>An example run\<close>

text \<open>
  A small directory of schema files and the answers of the libraries on them, for the
  concrete instances of the theorems below. \<open>demo_load\<close>, \<open>demo_dump\<close> and \<open>demo_repr\<close>
  list what \<^verbatim>\<open>json.load\<close>, \<^verbatim>\<open>json.dump(..., indent=4)\<close> and \<^verbatim>\<open>repr\<close> give on a few texts
  and values; their last branch stands for inputs that do not occur here.
  \<open>demo_schemer\<close> answers every schema with the same SAID and refuses one schema with an
  error of the digest pipeline.
\<close>

definition demo_said :: string where
  "demo_said = ''EBdXt3gIXOf2BBWNHdSXCJnFJL5OuQPyM5K0neuniccM''"

definition demo_load :: "string \<Rightarrow> exn + json" where
  "demo_load s =
     (if s = ''{}'' then Inr (JObj [])
      else if s = ''{\"$id\": \"EBdXt3gIXOf2BBWNHdSXCJnFJL5OuQPyM5K0neuniccM\"}''
        then Inr (JObj [(''$id'', JStr demo_said)])
      else if s = ''{\"title\": \"Foo\"}'' then Inr (JObj [(''title'', JStr ''Foo'')])
      else if s = ''{\"$id\": \"(none)\"}'' then Inr (JObj [(''$id'', JStr ''(none)'')])
      else if s = ''{\"title\": \"bad\"}'' then Inr (JObj [(''title'', JStr ''bad'')])
      else if s = ''{''
        then Inl (Exception ''JSONDecodeError''
               ''Expecting property name enclosed in double quotes: line 1 column 2 (char 1)'')
      else Inl (Exception ''JSONDecodeError'' ''Expecting value: line 1 column 1 (char 0)''))"

definition demo_dump :: "json \<Rightarrow> string" where
  "demo_dump v =
     (if v = JObj [(''$id'', JStr demo_said)]
      then ''{'' @ [CHR 0x0A] @ ''    \"$id\": \"'' @ demo_said @ ''\"'' @ [CHR 0x0A] @ ''}''
      else if v = JObj [(''title'', JStr ''Foo''), (''$id'', JStr demo_said)]
      then ''{'' @ [CHR 0x0A] @ ''    \"title\": \"Foo\",'' @ [CHR 0x0A]
           @ ''    \"$id\": \"'' @ demo_said @ ''\"'' @ [CHR 0x0A] @ ''}''
      else ''null'')"

definition demo_repr :: "json \<Rightarrow> string" where
  "demo_repr v = (if v = JInt 5 then ''5'' else ''None'')"

definition demo_schemer :: "dict \<Rightarrow> exn + string" where
  "demo_schemer d =
     (if d = [(''title'', JStr ''bad'')]
      then Inl (Exception ''UnsupportedAlgorithm'' ''Unsupported digest code'')
      else Inr demo_said)"

definition demo_paths :: "path list" where
  "demo_paths = [''matou-bad.json'', ''matou-broken.json'', ''matou-new.json'',
     ''matou-none.json'', ''matou-ok.json'', ''matou-title.json'']"

definition demo_lib :: lib where
  "demo_lib =
     \<lparr>keri_installed = True,
      schemer_said = demo_schemer,
      schemer_sed = (\<lambda>d. dict_setitem d ''$id'' (JStr demo_said)),
      json_load = demo_load,
      json_dump = demo_dump,
      py_repr = demo_repr,
      stem = takeWhile (\<lambda>c. c \<noteq> CHR ''.''),
      glob_matou = (\<lambda>fs. filter (\<lambda>p. fs p \<noteq> None) demo_paths)\<rparr>"

definition demo_files :: "path \<Rightarrow> string option" where
  "demo_files =
     [''matou-bad.json'' \<mapsto> ''{\"title\": \"bad\"}'',
      ''matou-broken.json'' \<mapsto> ''{'',
      ''matou-new.json'' \<mapsto> ''{}'',
      ''matou-none.json'' \<mapsto> ''{\"$id\": \"(none)\"}'',
      ''matou-ok.json'' \<mapsto> ''{\"$id\": \"EBdXt3gIXOf2BBWNHdSXCJnFJL5OuQPyM5K0neuniccM\"}'',
      ''matou-title.json'' \<mapsto> ''{\"title\": \"Foo\"}'']"

definition demo_world :: world where
  "demo_world =
     \<lparr>files = demo_files, read_only = (\<lambda>p. False), capacity = (\<lambda>p. None), trace = []\<rparr>"

text \<open>The same directory on storage that takes five characters for a file.\<close>

definition full_world :: world where
  "full_world =
     \<lparr>files = demo_files, read_only = (\<lambda>p. False), capacity = (\<lambda>p. Some 5), trace = []\<rparr>"

text \<open>The same directory with every file closed to writing.\<close>

definition locked_world :: world where
  "locked_world =
     \<lparr>files = demo_files, read_only = (\<lambda>p. True), capacity = (\<lambda>p. None), trace = []\<rparr>"

section \<open>Unfolding the script on a concrete run\<close>

lemmas run_defs =
  saidify_file_def rewrite_file_def open_read_def open_write_def write_text_def emit_def
  compute_said_def dict_copy_def dict_pop_def dict_get_def py_eq_str_def py_str_def Let_def
  writes_def stored_def new_text_def

lemmas demo_defs =
  demo_lib_def demo_world_def full_world_def locked_world_def demo_files_def demo_load_def demo_dump_def
  demo_repr_def demo_schemer_def demo_said_def

lemmas main_defs =
  script_def main_def print_consts_def const_line_def const_name_def py_replace_def
  upper_def upper_char_def

section \<open>Facts about the dict operations and saidify_file\<close>

lemma dict_pop_setitem: "dict_pop k (dict_setitem d k v) = dict_pop k d"
  by (induction d) (auto simp: dict_pop_def)

lemma dict_pop_insert: "dict_pop k (xs @ (k, v) # ys) = dict_pop k (xs @ ys)"
  by (simp add: dict_pop_def)

lemma saidify_file_missing:
  "files w p = None \<Longrightarrow>
   saidify_file L p w =
     (Inl (Exception ''FileNotFoundError''
            (''[Errno 2] No such file or directory: '' @ [CHR 0x27] @ p @ [CHR 0x27])),
      w\<lparr>trace := trace w @ [Print (''Processing: '' @ p), Open_read p]\<rparr>)"
  by (simp add: saidify_file_def open_read_def emit_def)

lemma saidify_file_load_error:
  "files w p = Some s \<Longrightarrow> json_load L s = Inl e \<Longrightarrow>
   saidify_file L p w =
     (Inl e, w\<lparr>trace := trace w @ [Print (''Processing: '' @ p), Open_read p]\<rparr>)"
  by (simp add: saidify_file_def open_read_def emit_def)

lemma saidify_file_said_error:
  "files w p = Some s \<Longrightarrow> json_load L s = Inr (JObj d) \<Longrightarrow> compute_said L d = Inl e \<Longrightarrow>
   saidify_file L p w =
     (Inl e, w\<lparr>trace := trace w @ [Print (''Processing: '' @ p), Open_read p]\<rparr>)"
  by (simp add: saidify_file_def open_read_def emit_def)

lemma saidify_file_computed:
  "files w p = Some s \<Longrightarrow> json_load L s = Inr (JObj d) \<Longrightarrow> compute_said L d = Inr new \<Longrightarrow>
   saidify_file L p w =
     (if py_eq_str (dict_get d ''$id'' (JStr ''(none)'')) new
      then (Inr new,
            w\<lparr>trace := trace w @ [Print (''Processing: '' @ p), Open_read p,
                 Print (''  Old $id: '' @ py_str L (dict_get d ''$id'' (JStr ''(none)''))),
                 Print (''  New $id: '' @ new), Print ''  (no change)'']\<rparr>)
      else rewrite_file L p d new
            (w\<lparr>trace := trace w @ [Print (''Processing: '' @ p), Open_read p,
                 Print (''  Old $id: '' @ py_str L (dict_get d ''$id'' (JStr ''(none)''))),
                 Print (''  New $id: '' @ new)]\<rparr>))"
  by (simp add: saidify_file_def open_read_def emit_def Let_def)

lemma rewrite_file_locked:
  "read_only w p \<Longrightarrow>
   rewrite_file L p d new w =
     (Inl (Exception ''PermissionError''
            (''[Errno 13] Permission denied: '' @ [CHR 0x27] @ p @ [CHR 0x27])),
      w\<lparr>trace := trace w @ [Open_write p]\<rparr>)"
  by (simp add: rewrite_file_def open_write_def emit_def)

lemma rewrite_file_files:
  "\<not> read_only w p \<Longrightarrow>
   files (snd (rewrite_file L p d new w)) =
     (files w)(p \<mapsto> stored (capacity w p) (new_text L d new))"
  by (auto simp: rewrite_file_def open_write_def write_text_def emit_def Let_def stored_def
        new_text_def split: option.splits)

lemma rewrite_file_result:
  "\<not> read_only w p \<Longrightarrow>
   fst (rewrite_file L p d new w) =
     (if (case capacity w p of None \<Rightarrow> True | Some k \<Rightarrow> length (new_text L d new) \<le> k)
      then Inr new
      else Inl (Exception ''OSError'' ''[Errno 28] No space left on device''))"
  by (auto simp: rewrite_file_def open_write_def write_text_def emit_def Let_def new_text_def
        split: option.splits)

lemma reads_append: "reads (xs @ ys) = reads xs @ reads ys"
  by (induction xs rule: reads.induct) auto

lemma saidify_file_reads:
  "reads (trace (snd (saidify_file L p w))) = reads (trace w) @ [p]"
  by (auto simp: saidify_file_def rewrite_file_def open_write_def write_text_def open_read_def
        emit_def Let_def reads_append split: option.splits sum.splits json.splits)

lemma saidify_file_exn:
  assumes "\<forall>s e. json_load L s = Inl e \<longrightarrow> is_Exception e"
    and "\<forall>d e. schemer_said L d = Inl e \<longrightarrow> is_Exception e"
    and "saidify_file L p w = (Inl e, w')"
  shows "is_Exception e"
  using assms
  by (auto simp: saidify_file_def rewrite_file_def open_write_def write_text_def open_read_def
        emit_def Let_def compute_said_def
      split: option.splits sum.splits json.splits if_splits)

lemma process_files_all:
  assumes "\<forall>s e. json_load L s = Inl e \<longrightarrow> is_Exception e"
    and "\<forall>d e. schemer_said L d = Inl e \<longrightarrow> is_Exception e"
  shows "fst (process_files L fs rs w) = None \<and>
         reads (trace (snd (snd (process_files L fs rs w)))) = reads (trace w) @ fs"
proof (induction fs arbitrary: rs w)
  case Nil
  then show ?case by simp
next
  case (Cons f fs)
  obtain r w1 where s: "saidify_file L f w = (r, w1)" by (cases "saidify_file L f w")
  have rd: "reads (trace w1) = reads (trace w) @ [f]"
    using saidify_file_reads [of L f w] s by simp
  show ?case
  proof (cases r)
    case (Inr said)
    then show ?thesis using s rd Cons.IH [of "dict_setitem rs (stem L f) said" w1] by simp
  next
    case (Inl e)
    then have "is_Exception e" using saidify_file_exn [of L f w e w1] assms s by simp
    then obtain c m where e: "e = Exception c m" by (cases e) auto
    show ?thesis
      using s Inl e rd Cons.IH [of rs "emit (Print (''  Error: '' @ m)) w1"]
      by (simp add: emit_def reads_append)
  qed
qed

section \<open>Facts about the string operations\<close>

lemma replace_from_absent: "old \<noteq> [] \<Longrightarrow> \<not> py_in old s \<Longrightarrow> replace_from old new s = s"
  by (induction s) auto

lemma replace_from_head:
  "old \<noteq> [] \<Longrightarrow> startswith s old \<Longrightarrow>
   replace_from old new s = new @ replace_from old new (drop (length old) s)"
  by (cases s; cases old) auto

lemma replace_char: "replace_from [a] [b] s = map (\<lambda>c. if c = a then b else c) s"
  by (induction s) auto

lemma py_count_zero: "sub \<noteq> [] \<Longrightarrow> py_count s sub = 0 \<Longrightarrow> \<not> py_in sub s"
  by (induction s sub rule: py_count.induct) (auto split: if_splits)

lemma replace_once:
  "m \<noteq> [] \<Longrightarrow> py_count s m \<le> 1 \<Longrightarrow> replace_from m (m @ ins) s = insert_after m ins s"
proof (induction s)
  case Nil
  then show ?case by simp
next
  case (Cons c cs)
  show ?case
  proof (cases "startswith (c # cs) m")
    case True
    with Cons.prems have "py_count (drop (length m - 1) cs) m = 0" by simp
    with Cons.prems have "\<not> py_in m (drop (length m - 1) cs)" by (simp add: py_count_zero)
    with Cons.prems have "replace_from m (m @ ins) (drop (length m - 1) cs) = drop (length m - 1) cs"
      by (simp add: replace_from_absent)
    moreover have "drop (length m) (c # cs) = drop (length m - 1) cs"
      using Cons.prems by (cases m) auto
    ultimately show ?thesis using True Cons.prems by simp
  next
    case False
    with Cons show ?thesis by simp
  qed
qed

lemma strip_prefix_replace:
  assumes "\<not> py_in ''matou-'' (removeprefix name ''matou-'')"
  shows "py_replace name ''matou-'' [] = removeprefix name ''matou-''"
proof (cases "startswith name ''matou-''")
  case True
  then have "replace_from ''matou-'' [] name =
      [] @ replace_from ''matou-'' [] (drop (length ''matou-'') name)"
    by (intro replace_from_head) simp_all
  also have "\<dots> = drop (length ''matou-'') name"
    using assms True by (simp add: removeprefix_def replace_from_absent)
  finally show ?thesis using True by (simp add: py_replace_def removeprefix_def)
next
  case False
  then show ?thesis using assms by (simp add: py_replace_def removeprefix_def replace_from_absent)
qed

section \<open>compute_said: the identifier field and the caller's dict\<close>

text \<open>
  C1 (self-exclusion). The SAID that \<open>compute_said\<close> returns does not depend on the value
  under \<^verbatim>\<open>$id\<close>: the document with \<^verbatim>\<open>$id\<close> set to \<open>v1\<close>, the document with \<^verbatim>\<open>$id\<close> set to
  \<open>v2\<close> and the document without \<^verbatim>\<open>$id\<close> give the same result (the same SAID, or the same
  exception of the library), wherever the \<^verbatim>\<open>$id\<close> entry stands in the document.
\<close>

theorem compute_said_ignores_id:
  "compute_said L (dict_setitem D ''$id'' v1) = compute_said L (dict_setitem D ''$id'' v2)
   \<and> compute_said L (dict_setitem D ''$id'' v1) = compute_said L (dict_pop ''$id'' D)
   \<and> compute_said L (xs @ (''$id'', v1) # ys) = compute_said L (xs @ (''$id'', v2) # ys)
   \<and> compute_said L (xs @ (''$id'', v1) # ys) = compute_said L (xs @ ys)"
proof -
  have "dict_pop ''$id'' (dict_pop ''$id'' D) = dict_pop ''$id'' D"
    by (simp add: dict_pop_def)
  then show ?thesis
    by (simp add: compute_said_def dict_copy_def dict_pop_setitem dict_pop_insert)
qed

text \<open>
  C9 (the input is not changed). \<open>compute_said\<close> on the dict object at reference \<open>a\<close> leaves
  that object as it was, so its \<^verbatim>\<open>$id\<close> entry is still there with its value; every object
  that existed before the call is unchanged, the only object the call changes is the copy it
  allocated; and the call returns what the value-level \<open>compute_said\<close> returns.
\<close>

theorem compute_said_keeps_input:
  "a < length h \<Longrightarrow>
   snd (compute_said_store L h a) ! a = h ! a
   \<and> map_of (snd (compute_said_store L h a) ! a) ''$id'' = map_of (h ! a) ''$id''
   \<and> take (length h) (snd (compute_said_store L h a)) = h
   \<and> fst (compute_said_store L h a) = compute_said L (h ! a)"
  by (simp add: compute_said_store_def compute_said_def Let_def nth_append)

theorem compute_said_keeps_input_witness:
  "(0::nat) < length [[(''$id'', JStr ''old''), (''title'', JStr ''Foo'')]]
   \<and> snd (compute_said_store demo_lib [[(''$id'', JStr ''old''), (''title'', JStr ''Foo'')]] 0) ! 0
       = [(''$id'', JStr ''old''), (''title'', JStr ''Foo'')]
   \<and> snd (compute_said_store demo_lib [[(''$id'', JStr ''old''), (''title'', JStr ''Foo'')]] 0) ! 1
       = [(''title'', JStr ''Foo''), (''$id'', JStr demo_said)]
   \<and> fst (compute_said_store demo_lib [[(''$id'', JStr ''old''), (''title'', JStr ''Foo'')]] 0)
       = Inr demo_said"
  using compute_said_keeps_input
          [of 0 "[[(''$id'', JStr ''old''), (''title'', JStr ''Foo'')]]" demo_lib]
  by (simp add: compute_said_store_def compute_said_def Let_def dict_copy_def dict_pop_def
        demo_lib_def demo_schemer_def)

section \<open>saidify_file: when the file is written\<close>

text \<open>
  C2 (idempotence of the rewrite). When the \<^verbatim>\<open>$id\<close> stored in a document is the SAID that
  \<open>compute_said\<close> gives for it, \<open>saidify_file\<close> returns that SAID, prints
  \<^verbatim>\<open>(no change)\<close> and only adds to the trace: no file is opened for writing and the files
  are the same as before. And whenever a call of \<open>saidify_file\<close> changes the files or
  writes at all, the document was loaded, its SAID was computed, and that SAID differs from
  the stored value.
\<close>

theorem saidify_file_idempotent:
  "(files w p = Some s \<and> json_load L s = Inr (JObj d) \<and> map_of d ''$id'' = Some (JStr said)
      \<and> compute_said L d = Inr said
    \<longrightarrow> saidify_file L p w =
          (Inr said,
           w\<lparr>trace := trace w @ [Print (''Processing: '' @ p), Open_read p,
                Print (''  Old $id: '' @ said), Print (''  New $id: '' @ said),
                Print ''  (no change)'']\<rparr>))
   \<and> (files (snd (saidify_file L q v)) \<noteq> files v
        \<or> writes (trace (snd (saidify_file L q v))) \<noteq> writes (trace v)
      \<longrightarrow> (\<exists>s' d' new. files v q = Some s' \<and> json_load L s' = Inr (JObj d')
             \<and> compute_said L d' = Inr new
             \<and> \<not> py_eq_str (dict_get d' ''$id'' (JStr ''(none)'')) new))"
proof (intro conjI impI)
  assume "files w p = Some s \<and> json_load L s = Inr (JObj d) \<and> map_of d ''$id'' = Some (JStr said)
      \<and> compute_said L d = Inr said"
  then show "saidify_file L p w =
          (Inr said,
           w\<lparr>trace := trace w @ [Print (''Processing: '' @ p), Open_read p,
                Print (''  Old $id: '' @ said), Print (''  New $id: '' @ said),
                Print ''  (no change)'']\<rparr>)"
    by (simp add: saidify_file_computed dict_get_def py_eq_str_def py_str_def)
next
  assume a: "files (snd (saidify_file L q v)) \<noteq> files v
        \<or> writes (trace (snd (saidify_file L q v))) \<noteq> writes (trace v)"
  show "\<exists>s' d' new. files v q = Some s' \<and> json_load L s' = Inr (JObj d')
             \<and> compute_said L d' = Inr new
             \<and> \<not> py_eq_str (dict_get d' ''$id'' (JStr ''(none)'')) new"
  proof (cases "files v q")
    case None
    then show ?thesis using a by (simp add: saidify_file_missing writes_def)
  next
    case (Some s')
    show ?thesis
    proof (cases "json_load L s'")
      case (Inl e)
      then show ?thesis using a Some by (simp add: saidify_file_load_error writes_def)
    next
      case (Inr j)
      show ?thesis
      proof (cases "\<exists>d'. j = JObj d'")
        case False
        then show ?thesis using a Some Inr
          by (cases j) (simp_all add: saidify_file_def open_read_def emit_def writes_def)
      next
        case True
        then obtain d' where j: "j = JObj d'" by blast
        show ?thesis
        proof (cases "compute_said L d'")
          case (Inl e)
          then show ?thesis using a Some Inr j by (simp add: saidify_file_said_error writes_def)
        next
          case new: (Inr new)
          show ?thesis
          proof (cases "py_eq_str (dict_get d' ''$id'' (JStr ''(none)'')) new")
            case True
            then show ?thesis using a Some Inr j new
              by (simp add: saidify_file_computed writes_def)
          next
            case False
            then show ?thesis using Some Inr j new by blast
          qed
        qed
      qed
    qed
  qed
qed

theorem saidify_file_idempotent_witness:
  "saidify_file demo_lib ''matou-ok.json'' demo_world =
     (Inr demo_said,
      demo_world\<lparr>trace := [Print ''Processing: matou-ok.json'', Open_read ''matou-ok.json'',
         Print (''  Old $id: '' @ demo_said), Print (''  New $id: '' @ demo_said),
         Print ''  (no change)'']\<rparr>)
   \<and> writes (trace (snd (saidify_file demo_lib ''matou-new.json'' demo_world))) =
       [Open_write ''matou-new.json'', Write ''matou-new.json'' (demo_dump (JObj [(''$id'', JStr demo_said)])),
        Write ''matou-new.json'' [CHR 0x0A]]
   \<and> files demo_world ''matou-new.json'' = Some ''{}''
   \<and> compute_said demo_lib [] = Inr demo_said
   \<and> \<not> py_eq_str (dict_get [] ''$id'' (JStr ''(none)'')) demo_said"
proof -
  have f1: "files demo_world ''matou-ok.json'' =
      Some ''{\"$id\": \"EBdXt3gIXOf2BBWNHdSXCJnFJL5OuQPyM5K0neuniccM\"}''"
    by (simp add: demo_world_def demo_files_def)
  have l1: "json_load demo_lib ''{\"$id\": \"EBdXt3gIXOf2BBWNHdSXCJnFJL5OuQPyM5K0neuniccM\"}'' =
      Inr (JObj [(''$id'', JStr demo_said)])"
    by (simp add: demo_lib_def demo_load_def)
  have c1: "compute_said demo_lib [(''$id'', JStr demo_said)] = Inr demo_said"
    by (simp add: compute_said_def dict_copy_def dict_pop_def demo_lib_def demo_schemer_def)
  have f2: "files demo_world ''matou-new.json'' = Some ''{}''"
    by (simp add: demo_world_def demo_files_def)
  have l2: "json_load demo_lib ''{}'' = Inr (JObj [])"
    by (simp add: demo_lib_def demo_load_def)
  have c2: "compute_said demo_lib [] = Inr demo_said"
    by (simp add: compute_said_def dict_copy_def dict_pop_def demo_lib_def demo_schemer_def)
  have n2: "\<not> py_eq_str (dict_get [] ''$id'' (JStr ''(none)'')) demo_said"
    by (simp add: py_eq_str_def dict_get_def demo_said_def)
  have t2: "writes (trace (snd (saidify_file demo_lib ''matou-new.json'' demo_world))) =
       [Open_write ''matou-new.json'', Write ''matou-new.json'' (demo_dump (JObj [(''$id'', JStr demo_said)])),
        Write ''matou-new.json'' [CHR 0x0A]]"
    by (simp add: run_defs demo_defs)
  show ?thesis
    using saidify_file_idempotent [where w = demo_world and p = "''matou-ok.json''" and L = demo_lib
               and s = "''{\"$id\": \"EBdXt3gIXOf2BBWNHdSXCJnFJL5OuQPyM5K0neuniccM\"}''"
               and d = "[(''$id'', JStr demo_said)]" and said = demo_said
               and q = "''matou-new.json''" and v = demo_world]
      f1 l1 c1 f2 c2 n2 t2
    by (simp add: demo_world_def)
qed

text \<open>
  C10 (the sentinel for an absent \<^verbatim>\<open>$id\<close>). A document without \<^verbatim>\<open>$id\<close> and a document
  whose \<^verbatim>\<open>$id\<close> is the string \<^verbatim>\<open>(none)\<close> are treated by the same rule: the old value
  printed is \<^verbatim>\<open>(none)\<close>, and the file is left alone exactly when the computed SAID is
  the string \<^verbatim>\<open>(none)\<close>; otherwise the document is rewritten.
\<close>

theorem saidify_file_none_sentinel:
  "files w p = Some s \<Longrightarrow> json_load L s = Inr (JObj d) \<Longrightarrow>
   map_of d ''$id'' = None \<or> map_of d ''$id'' = Some (JStr ''(none)'') \<Longrightarrow>
   compute_said L d = Inr new \<Longrightarrow>
   saidify_file L p w =
     (if new = ''(none)''
      then (Inr new,
            w\<lparr>trace := trace w @ [Print (''Processing: '' @ p), Open_read p,
                 Print ''  Old $id: (none)'', Print (''  New $id: '' @ new),
                 Print ''  (no change)'']\<rparr>)
      else rewrite_file L p d new
            (w\<lparr>trace := trace w @ [Print (''Processing: '' @ p), Open_read p,
                 Print ''  Old $id: (none)'', Print (''  New $id: '' @ new)]\<rparr>))"
  by (auto simp: saidify_file_computed dict_get_def py_eq_str_def py_str_def)

theorem saidify_file_none_sentinel_witness:
  "files demo_world ''matou-none.json'' = Some ''{\"$id\": \"(none)\"}''
   \<and> json_load demo_lib ''{\"$id\": \"(none)\"}'' = Inr (JObj [(''$id'', JStr ''(none)'')])
   \<and> map_of [(''$id'', JStr ''(none)'')] ''$id'' = Some (JStr ''(none)'')
   \<and> compute_said demo_lib [(''$id'', JStr ''(none)'')] = Inr demo_said
   \<and> saidify_file demo_lib ''matou-none.json'' demo_world =
       rewrite_file demo_lib ''matou-none.json'' [(''$id'', JStr ''(none)'')] demo_said
         (demo_world\<lparr>trace := [Print ''Processing: matou-none.json'',
            Open_read ''matou-none.json'', Print ''  Old $id: (none)'',
            Print (''  New $id: '' @ demo_said)]\<rparr>)"
proof -
  have f: "files demo_world ''matou-none.json'' = Some ''{\"$id\": \"(none)\"}''"
    by (simp add: demo_world_def demo_files_def)
  have l: "json_load demo_lib ''{\"$id\": \"(none)\"}'' = Inr (JObj [(''$id'', JStr ''(none)'')])"
    by (simp add: demo_lib_def demo_load_def)
  have m: "map_of [(''$id'', JStr ''(none)'')] ''$id'' = None
           \<or> map_of [(''$id'', JStr ''(none)'')] ''$id'' = Some (JStr ''(none)'')"
    by simp
  have c: "compute_said demo_lib [(''$id'', JStr ''(none)'')] = Inr demo_said"
    by (simp add: compute_said_def dict_copy_def dict_pop_def demo_lib_def demo_schemer_def)
  have n: "demo_said \<noteq> ''(none)''" by (simp add: demo_said_def)
  have t: "trace demo_world = []" by (simp add: demo_world_def)
  show ?thesis
    using saidify_file_none_sentinel [OF f l m c] f l c n t by simp
qed

text \<open>
  C5, as the specification states it, fails. The document \<^verbatim>\<open>{"title": "Foo"}\<close> gets a SAID, so
  \<open>saidify_file\<close> decides to rewrite it; the file can be opened for writing, but the storage
  takes only five characters. The call raises \<^verbatim>\<open>OSError\<close> and the file holds the first five
  characters of the new text: the old content is gone and a partly written file is there.
\<close>

theorem atomic_write_counterexample:
  "files full_world ''matou-title.json'' = Some ''{\"title\": \"Foo\"}''
   \<and> json_load demo_lib ''{\"title\": \"Foo\"}'' = Inr (JObj [(''title'', JStr ''Foo'')])
   \<and> compute_said demo_lib [(''title'', JStr ''Foo'')] = Inr demo_said
   \<and> \<not> py_eq_str (dict_get [(''title'', JStr ''Foo'')] ''$id'' (JStr ''(none)'')) demo_said
   \<and> \<not> read_only full_world ''matou-title.json''
   \<and> fst (saidify_file demo_lib ''matou-title.json'' full_world) =
       Inl (Exception ''OSError'' ''[Errno 28] No space left on device'')
   \<and> files (snd (saidify_file demo_lib ''matou-title.json'' full_world)) ''matou-title.json'' =
       Some (''{'' @ [CHR 0x0A] @ ''   '')"
  by (simp add: run_defs demo_defs)

text \<open>
  C5 (amended). When \<open>saidify_file\<close> decides to rewrite a document, the write either fails
  at the opening of the file, and then the error is raised and the prior content remains
  intact, or the file is opened and cut to length zero, and then: if the storage takes all
  of the new text, the file holds the new text and the SAID is returned; if it does not,
  \<^verbatim>\<open>OSError\<close> is raised and the file holds the part of the new text that was written before
  the failure. No other file changes.
\<close>

theorem saidify_file_write:
  "files w p = Some s \<Longrightarrow> json_load L s = Inr (JObj d) \<Longrightarrow> compute_said L d = Inr new \<Longrightarrow>
   \<not> py_eq_str (dict_get d ''$id'' (JStr ''(none)'')) new \<Longrightarrow>
   (read_only w p \<longrightarrow>
      fst (saidify_file L p w) =
        Inl (Exception ''PermissionError''
              (''[Errno 13] Permission denied: '' @ [CHR 0x27] @ p @ [CHR 0x27]))
      \<and> files (snd (saidify_file L p w)) = files w)
   \<and> (\<not> read_only w p \<longrightarrow>
        files (snd (saidify_file L p w)) =
          (files w)(p \<mapsto> stored (capacity w p) (new_text L d new))
        \<and> fst (saidify_file L p w) =
            (if (case capacity w p of None \<Rightarrow> True | Some k \<Rightarrow> length (new_text L d new) \<le> k)
             then Inr new
             else Inl (Exception ''OSError'' ''[Errno 28] No space left on device'')))"
  by (simp add: saidify_file_computed rewrite_file_files rewrite_file_result rewrite_file_locked)

theorem saidify_file_write_witness:
  "files demo_world ''matou-title.json'' = Some ''{\"title\": \"Foo\"}''
   \<and> json_load demo_lib ''{\"title\": \"Foo\"}'' = Inr (JObj [(''title'', JStr ''Foo'')])
   \<and> compute_said demo_lib [(''title'', JStr ''Foo'')] = Inr demo_said
   \<and> \<not> py_eq_str (dict_get [(''title'', JStr ''Foo'')] ''$id'' (JStr ''(none)'')) demo_said
   \<and> \<not> read_only demo_world ''matou-title.json''
   \<and> fst (saidify_file demo_lib ''matou-title.json'' demo_world) = Inr demo_said
   \<and> files (snd (saidify_file demo_lib ''matou-title.json'' demo_world)) ''matou-title.json'' =
       Some (''{'' @ [CHR 0x0A] @ ''    \"title\": \"Foo\",'' @ [CHR 0x0A]
             @ ''    \"$id\": \"EBdXt3gIXOf2BBWNHdSXCJnFJL5OuQPyM5K0neuniccM\"''
             @ [CHR 0x0A] @ ''}'' @ [CHR 0x0A])
   \<and> read_only locked_world ''matou-title.json''
   \<and> fst (saidify_file demo_lib ''matou-title.json'' locked_world) =
       Inl (Exception ''PermissionError''
             (''[Errno 13] Permission denied: '' @ [CHR 0x27] @ ''matou-title.json'' @ [CHR 0x27]))
   \<and> files (snd (saidify_file demo_lib ''matou-title.json'' locked_world)) ''matou-title.json'' =
       Some ''{\"title\": \"Foo\"}''"
proof -
  have f: "files demo_world ''matou-title.json'' = Some ''{\"title\": \"Foo\"}''"
    by (simp add: demo_world_def demo_files_def)
  have g: "files locked_world ''matou-title.json'' = Some ''{\"title\": \"Foo\"}''"
    by (simp add: locked_world_def demo_files_def)
  have l: "json_load demo_lib ''{\"title\": \"Foo\"}'' = Inr (JObj [(''title'', JStr ''Foo'')])"
    by (simp add: demo_lib_def demo_load_def)
  have c: "compute_said demo_lib [(''title'', JStr ''Foo'')] = Inr demo_said"
    by (simp add: compute_said_def dict_copy_def dict_pop_def demo_lib_def demo_schemer_def)
  have n: "\<not> py_eq_str (dict_get [(''title'', JStr ''Foo'')] ''$id'' (JStr ''(none)'')) demo_said"
    by (simp add: py_eq_str_def dict_get_def demo_said_def)
  have k: "capacity demo_world ''matou-title.json'' = None"
    "\<not> read_only demo_world ''matou-title.json''"
    by (simp_all add: demo_world_def)
  have r: "read_only locked_world ''matou-title.json''" by (simp add: locked_world_def)
  have x: "new_text demo_lib [(''title'', JStr ''Foo'')] demo_said =
       ''{'' @ [CHR 0x0A] @ ''    \"title\": \"Foo\",'' @ [CHR 0x0A]
             @ ''    \"$id\": \"EBdXt3gIXOf2BBWNHdSXCJnFJL5OuQPyM5K0neuniccM\"''
             @ [CHR 0x0A] @ ''}'' @ [CHR 0x0A]"
    by (simp add: new_text_def demo_lib_def demo_dump_def demo_said_def)
  show ?thesis
    using saidify_file_write [OF f l c n] saidify_file_write [OF g l c n] f g l c n k r x
    by (simp add: stored_def)
qed

section \<open>main: the loop over the documents\<close>

text \<open>
  C6 (per-document isolation). A file that does not exist, or whose content \<^verbatim>\<open>json.load\<close>
  rejects, gets its error message printed and the loop goes on with the remaining files from
  the world that the failed call left. And when the libraries raise nothing outside the
  \<^verbatim>\<open>Exception\<close> classes, the loop ends normally and has tried to read every file of the
  batch, in order, whatever failed on the way.
\<close>

theorem per_document_isolation:
  "(files w f = None
    \<longrightarrow> process_files L (f # rest) rs w =
         process_files L rest rs
           (w\<lparr>trace := trace w @ [Print (''Processing: '' @ f), Open_read f,
              Print (''  Error: [Errno 2] No such file or directory: ''
                      @ [CHR 0x27] @ f @ [CHR 0x27])]\<rparr>))
   \<and> (files w2 f2 = Some s \<and> json_load L s = Inl (Exception c m)
      \<longrightarrow> process_files L (f2 # rest2) rs2 w2 =
           process_files L rest2 rs2
             (w2\<lparr>trace := trace w2 @ [Print (''Processing: '' @ f2), Open_read f2,
                Print (''  Error: '' @ m)]\<rparr>))
   \<and> ((\<forall>s e. json_load L s = Inl e \<longrightarrow> is_Exception e)
       \<and> (\<forall>d e. schemer_said L d = Inl e \<longrightarrow> is_Exception e)
      \<longrightarrow> fst (process_files L fs rs3 w3) = None
          \<and> reads (trace (snd (snd (process_files L fs rs3 w3)))) = reads (trace w3) @ fs)"
  by (simp add: saidify_file_missing saidify_file_load_error emit_def process_files_all)

theorem per_document_isolation_witness:
  "files demo_world ''matou-missing.json'' = None
   \<and> files demo_world ''matou-broken.json'' = Some ''{''
   \<and> json_load demo_lib ''{'' =
       Inl (Exception ''JSONDecodeError''
             ''Expecting property name enclosed in double quotes: line 1 column 2 (char 1)'')
   \<and> process_files demo_lib [''matou-missing.json'', ''matou-new.json''] [] demo_world =
       process_files demo_lib [''matou-new.json''] []
         (demo_world\<lparr>trace := [Print ''Processing: matou-missing.json'',
            Open_read ''matou-missing.json'',
            Print (''  Error: [Errno 2] No such file or directory: ''
                    @ [CHR 0x27] @ ''matou-missing.json'' @ [CHR 0x27])]\<rparr>)
   \<and> process_files demo_lib [''matou-broken.json'', ''matou-new.json''] [] demo_world =
       process_files demo_lib [''matou-new.json''] []
         (demo_world\<lparr>trace := [Print ''Processing: matou-broken.json'',
            Open_read ''matou-broken.json'',
            Print ''  Error: Expecting property name enclosed in double quotes: line 1 column 2 (char 1)'']\<rparr>)
   \<and> fst (process_files demo_lib
            [''matou-missing.json'', ''matou-broken.json'', ''matou-new.json''] [] demo_world) = None
   \<and> reads (trace (snd (snd (process_files demo_lib
            [''matou-missing.json'', ''matou-broken.json'', ''matou-new.json''] [] demo_world)))) =
       [''matou-missing.json'', ''matou-broken.json'', ''matou-new.json'']"
proof -
  have f1: "files demo_world ''matou-missing.json'' = None"
    by (simp add: demo_world_def demo_files_def)
  have f2: "files demo_world ''matou-broken.json'' = Some ''{''"
    by (simp add: demo_world_def demo_files_def)
  have l2: "json_load demo_lib ''{'' =
       Inl (Exception ''JSONDecodeError''
             ''Expecting property name enclosed in double quotes: line 1 column 2 (char 1)'')"
    by (simp add: demo_lib_def demo_load_def)
  have h1: "\<forall>s e. json_load demo_lib s = Inl e \<longrightarrow> is_Exception e"
    by (auto simp: demo_lib_def demo_load_def split: if_splits)
  have h2: "\<forall>d e. schemer_said demo_lib d = Inl e \<longrightarrow> is_Exception e"
    by (auto simp: demo_lib_def demo_schemer_def split: if_splits)
  have t: "trace demo_world = []" by (simp add: demo_world_def)
  show ?thesis
    using per_document_isolation
            [where L = demo_lib and w = demo_world and f = "''matou-missing.json''"
               and rest = "[''matou-new.json'']" and rs = "[]"
               and ?w2.0 = demo_world and ?f2.0 = "''matou-broken.json''" and s = "''{''"
               and c = "''JSONDecodeError''"
               and m = "''Expecting property name enclosed in double quotes: line 1 column 2 (char 1)''"
               and ?rest2.0 = "[''matou-new.json'']" and ?rs2.0 = "[]"
               and fs = "[''matou-missing.json'', ''matou-broken.json'', ''matou-new.json'']"
               and ?rs3.0 = "[]" and ?w3.0 = demo_world]
      f1 f2 l2 h1 h2 t
    by simp
qed

text \<open>
  C3, as the specification states it, fails: the first document of the batch raises
  \<^verbatim>\<open>UnsupportedAlgorithm\<close> from the digest pipeline; its message is printed, the second
  document is processed and rewritten, its constant is printed, and the process ends with
  exit status 0.
\<close>

theorem fatal_config_error_counterexample:
  "fst (saidify_file demo_lib ''matou-bad.json'' demo_world) =
     Inl (Exception ''UnsupportedAlgorithm'' ''Unsupported digest code'')
   \<and> fst (script demo_lib \<lparr>arg_all = False, arg_files = [''matou-bad.json'', ''matou-new.json'']\<rparr>
            demo_world) = Exit 0
   \<and> trace (snd (script demo_lib
            \<lparr>arg_all = False, arg_files = [''matou-bad.json'', ''matou-new.json'']\<rparr> demo_world)) =
       [Print ''Processing: matou-bad.json'', Open_read ''matou-bad.json'',
        Print ''  Error: Unsupported digest code'',
        Print ''Processing: matou-new.json'', Open_read ''matou-new.json'',
        Print ''  Old $id: (none)'',
        Print ''  New $id: EBdXt3gIXOf2BBWNHdSXCJnFJL5OuQPyM5K0neuniccM'',
        Open_write ''matou-new.json'',
        Write ''matou-new.json''
          (''{'' @ [CHR 0x0A] @ ''    \"$id\": \"EBdXt3gIXOf2BBWNHdSXCJnFJL5OuQPyM5K0neuniccM\"''
           @ [CHR 0x0A] @ ''}''),
        Write ''matou-new.json'' [CHR 0x0A],
        Print ''  Updated!'',
        Print ([CHR 0x0A] @ ''=== SAIDs for code ==='' @ [CHR 0x0A]),
        Print (''const NEW_SAID = '' @ [CHR 0x27]
               @ ''EBdXt3gIXOf2BBWNHdSXCJnFJL5OuQPyM5K0neuniccM'' @ [CHR 0x27] @ '';'')]"
  by (simp add: run_defs main_defs demo_defs)

text \<open>
  C3 (amended). An error of the \<^verbatim>\<open>Exception\<close> classes that the digest pipeline raises for a
  document (\<^verbatim>\<open>UnsupportedAlgorithm\<close> and \<^verbatim>\<open>EncodingLengthMismatch\<close> among them) is not fatal
  to the run: its message is printed for that document and the loop goes on with the
  remaining documents; a run on that document alone ends with exit status 0.
\<close>

theorem pipeline_error_not_fatal:
  "files w f = Some s \<Longrightarrow> json_load L s = Inr (JObj d) \<Longrightarrow>
   schemer_said L (dict_pop ''$id'' d) = Inl (Exception c m) \<Longrightarrow>
   process_files L (f # rest) rs w =
     process_files L rest rs
       (w\<lparr>trace := trace w @ [Print (''Processing: '' @ f), Open_read f,
            Print (''  Error: '' @ m)]\<rparr>)
   \<and> (keri_installed L \<longrightarrow>
        script L \<lparr>arg_all = False, arg_files = [f]\<rparr> w =
          (Exit 0,
           w\<lparr>trace := trace w @ [Print (''Processing: '' @ f), Open_read f,
                Print (''  Error: '' @ m)]\<rparr>))"
proof -
  assume a: "files w f = Some s" "json_load L s = Inr (JObj d)"
    "schemer_said L (dict_pop ''$id'' d) = Inl (Exception c m)"
  then have "compute_said L d = Inl (Exception c m)"
    by (simp add: compute_said_def dict_copy_def)
  with a have 1: "saidify_file L f w =
      (Inl (Exception c m), w\<lparr>trace := trace w @ [Print (''Processing: '' @ f), Open_read f]\<rparr>)"
    by (simp add: saidify_file_said_error)
  show ?thesis
    by (simp add: 1 emit_def script_def main_def print_consts_def)
qed

theorem pipeline_error_not_fatal_witness:
  "files demo_world ''matou-bad.json'' = Some ''{\"title\": \"bad\"}''
   \<and> json_load demo_lib ''{\"title\": \"bad\"}'' = Inr (JObj [(''title'', JStr ''bad'')])
   \<and> schemer_said demo_lib (dict_pop ''$id'' [(''title'', JStr ''bad'')]) =
       Inl (Exception ''UnsupportedAlgorithm'' ''Unsupported digest code'')
   \<and> keri_installed demo_lib
   \<and> script demo_lib \<lparr>arg_all = False, arg_files = [''matou-bad.json'']\<rparr> demo_world =
       (Exit 0,
        demo_world\<lparr>trace := [Print ''Processing: matou-bad.json'', Open_read ''matou-bad.json'',
           Print ''  Error: Unsupported digest code'']\<rparr>)"
proof -
  have f: "files demo_world ''matou-bad.json'' = Some ''{\"title\": \"bad\"}''"
    by (simp add: demo_world_def demo_files_def)
  have l: "json_load demo_lib ''{\"title\": \"bad\"}'' = Inr (JObj [(''title'', JStr ''bad'')])"
    by (simp add: demo_lib_def demo_load_def)
  have c: "schemer_said demo_lib (dict_pop ''$id'' [(''title'', JStr ''bad'')]) =
       Inl (Exception ''UnsupportedAlgorithm'' ''Unsupported digest code'')"
    by (simp add: dict_pop_def demo_lib_def demo_schemer_def)
  have k: "keri_installed demo_lib" by (simp add: demo_lib_def)
  have t: "trace demo_world = []" by (simp add: demo_world_def)
  show ?thesis
    using pipeline_error_not_fatal [OF f l c, of "[]" "[]"] f l c k t by simp
qed

section \<open>The constant names and the missing library\<close>

text \<open>
  C7, as the specification states it, fails: the code removes every occurrence of
  \<^verbatim>\<open>matou-\<close>, not the prefix only, so \<^verbatim>\<open>matou-matou-foo\<close> gives \<^verbatim>\<open>FOO_SAID\<close> where the rule
  of the specification gives \<^verbatim>\<open>MATOU_FOO_SAID\<close>.
\<close>

theorem const_name_prefix_counterexample:
  "const_name ''matou-matou-foo'' = ''FOO_SAID''
   \<and> spec_const_name ''matou-matou-foo'' = ''MATOU_FOO_SAID''
   \<and> const_name ''matou-matou-foo'' \<noteq> spec_const_name ''matou-matou-foo''"
  by (simp add: const_name_def spec_const_name_def removeprefix_def py_replace_def upper_def
        upper_char_def)

text \<open>
  C7 (amended). For a base name in which \<^verbatim>\<open>matou-\<close> occurs at most as the leading prefix
  and whose uppercased form holds the marker \<^verbatim>\<open>_SCHEMA\<close> at most once, the name of the
  constant is the one the rule of the specification gives: prefix stripped, \<^verbatim>\<open>-\<close> replaced
  by \<^verbatim>\<open>_\<close>, uppercased, \<^verbatim>\<open>_SAID\<close> appended or, with the marker, inserted right after it. In
  particular \<^verbatim>\<open>matou-endorsement-schema\<close> gives \<^verbatim>\<open>ENDORSEMENT_SCHEMA_SAID\<close> and
  \<^verbatim>\<open>matou-foo\<close> gives \<^verbatim>\<open>FOO_SAID\<close>.
\<close>

theorem const_name_rule:
  "(\<not> py_in ''matou-'' (removeprefix name ''matou-'') \<and>
    py_count (upper (py_replace (removeprefix name ''matou-'') ''-'' ''_'')) ''_SCHEMA'' \<le> 1
      \<longrightarrow> const_name name = spec_const_name name)
   \<and> const_name ''matou-endorsement-schema'' = ''ENDORSEMENT_SCHEMA_SAID''
   \<and> const_name ''matou-foo'' = ''FOO_SAID''"
proof (intro conjI impI)
  assume h: "\<not> py_in ''matou-'' (removeprefix name ''matou-'') \<and>
    py_count (upper (py_replace (removeprefix name ''matou-'') ''-'' ''_'')) ''_SCHEMA'' \<le> 1"
  let ?c = "upper (py_replace (removeprefix name ''matou-'') ''-'' ''_'')"
  have 1: "py_replace name ''matou-'' [] = removeprefix name ''matou-''"
    using h by (simp add: strip_prefix_replace)
  have 2: "?c = upper (map (\<lambda>ch. if ch = CHR ''-'' then CHR ''_'' else ch) (removeprefix name ''matou-''))"
    by (simp add: py_replace_def replace_char)
  have 3: "py_replace ?c ''_SCHEMA'' ''_SCHEMA_SAID'' = insert_after ''_SCHEMA'' ''_SAID'' ?c"
    using h replace_once [of "''_SCHEMA''" ?c "''_SAID''"] by (simp add: py_replace_def)
  show "const_name name = spec_const_name name"
    unfolding const_name_def spec_const_name_def Let_def 1 2 [symmetric] 3 by simp
next
  show "const_name ''matou-endorsement-schema'' = ''ENDORSEMENT_SCHEMA_SAID''"
    by (simp add: const_name_def py_replace_def upper_def upper_char_def)
next
  show "const_name ''matou-foo'' = ''FOO_SAID''"
    by (simp add: const_name_def py_replace_def upper_def upper_char_def)
qed

theorem const_name_rule_witness:
  "\<not> py_in ''matou-'' (removeprefix ''matou-member-schema'' ''matou-'')
   \<and> py_count (upper (py_replace (removeprefix ''matou-member-schema'' ''matou-'') ''-'' ''_''))
         ''_SCHEMA'' \<le> 1
   \<and> const_name ''matou-member-schema'' = ''MEMBER_SCHEMA_SAID''
   \<and> spec_const_name ''matou-member-schema'' = ''MEMBER_SCHEMA_SAID''"
  using const_name_rule [of "''matou-member-schema''"]
  by (simp add: spec_const_name_def removeprefix_def py_replace_def upper_def upper_char_def)

text \<open>
  C8 (exit when keripy is missing). If the import of keripy fails, the process prints its
  three lines of advice and ends with exit status 1; it opens no file, writes no file, and
  the files are as they were.
\<close>

theorem script_without_keri:
  "\<not> keri_installed L \<Longrightarrow>
   fst (script L a w) = Exit 1
   \<and> files (snd (script L a w)) = files w
   \<and> trace (snd (script L a w)) =
       trace w @ [Print ''Error: keripy not installed. Run: pip install keri'',
                  Print ''Or run this script inside a KERIA Docker container:'',
                  Print ''  docker exec -it keria python3 /path/to/saidify_keri.py'']"
  by (simp add: script_def emit_def)

theorem script_without_keri_witness:
  "\<not> keri_installed (demo_lib\<lparr>keri_installed := False\<rparr>)
   \<and> fst (script (demo_lib\<lparr>keri_installed := False\<rparr>)
            \<lparr>arg_all = True, arg_files = []\<rparr> demo_world) = Exit 1
   \<and> reads (trace (snd (script (demo_lib\<lparr>keri_installed := False\<rparr>)
            \<lparr>arg_all = True, arg_files = []\<rparr> demo_world))) = []
   \<and> files (snd (script (demo_lib\<lparr>keri_installed := False\<rparr>)
            \<lparr>arg_all = True, arg_files = []\<rparr> demo_world)) = demo_files"
  using script_without_keri
          [of "demo_lib\<lparr>keri_installed := False\<rparr>" "\<lparr>arg_all = True, arg_files = []\<rparr>" demo_world]
  by (simp add: demo_world_def)

end
